theory Spec2Isabelle
  imports Main "HOL-Library.Word"
begin

unbundle bit_operations_syntax

section \<open>The authentication middleware of node-expose-sspi (src/auth.ts)\<close>

text \<open>
  \<open>auth(options)\<close> validates its options, acquires a server credential and returns an
  asynchronous middleware \<open>(req, res, next)\<close>. The middleware talks to collaborators:
  the security provider \<open>sspi\<close>, the \<open>ServerContextHandleManager\<close>, the \<open>SSO\<close> class,
  the base64 codec, the response object and the continuation \<open>next\<close>. The model makes
  every call to a collaborator an event appended to a trace, in program order, and takes
  what each provider call answers (a value, or a thrown error) from an environment.
\<close>

subsection \<open>Options (src/interfaces.ts, AuthOptions) and their defaults\<close>

text \<open>
  Every field of \<open>AuthOptions\<close> is optional (\<open>useGroups?: boolean\<close>). A caller's object
  either lacks the property, or has it with the value \<open>undefined\<close>, or has it with a
  boolean. \<open>Object.assign\<close> copies every own property of its source, also one whose value
  is \<open>undefined\<close>; a property that is absent leaves the target's value alone.
\<close>

datatype 'a property = Absent | Undefined | Value 'a

record AuthOptions =
  useGroups :: "bool property"
  useActiveDirectory :: "bool property"
  useOwner :: "bool property"
  useCookies :: "bool property"

text \<open>The merged object \<open>opts\<close>: every property is present, \<open>None\<close> is \<open>undefined\<close>.\<close>

record Opts =
  optActiveDirectory :: "bool option"
  optGroups :: "bool option"
  optOwner :: "bool option"
  optCookies :: "bool option"

definition default_opts :: Opts where
  "default_opts =
     \<lparr>optActiveDirectory = Some True, optGroups = Some True,
      optOwner = Some False, optCookies = Some False\<rparr>"

fun assign_prop :: "bool option \<Rightarrow> bool property \<Rightarrow> bool option" where
  "assign_prop d Absent = d"
| "assign_prop d Undefined = None"
| "assign_prop d (Value b) = Some b"

definition object_assign :: "Opts \<Rightarrow> AuthOptions \<Rightarrow> Opts" where
  "object_assign t src =
     \<lparr>optActiveDirectory = assign_prop (optActiveDirectory t) (useActiveDirectory src),
      optGroups = assign_prop (optGroups t) (useGroups src),
      optOwner = assign_prop (optOwner t) (useOwner src),
      optCookies = assign_prop (optCookies t) (useCookies src)\<rparr>"

text \<open>JavaScript truthiness of a boolean-or-undefined value.\<close>

fun truthy :: "bool option \<Rightarrow> bool" where
  "truthy None = False"
| "truthy (Some b) = b"

text \<open>\<open>auth()\<close> with no argument takes the default parameter \<open>{}\<close>.\<close>

definition no_options :: AuthOptions where
  "no_options =
     \<lparr>useGroups = Absent, useActiveDirectory = Absent, useOwner = Absent, useCookies = Absent\<rparr>"

subsection \<open>Values exchanged with the collaborators\<close>

type_synonym handle = nat
type_synonym byte = "8 word"
type_synonym bytes = "byte list"
type_synonym key = nat

datatype exn = Error string

record http_error =
  err_status :: nat
  err_message :: string

definition createError :: "nat \<Rightarrow> string \<Rightarrow> http_error" where
  "createError code msg = \<lparr>err_status = code, err_message = msg\<rparr>"

text \<open>The argument of \<open>sspi.AcceptSecurityContext\<close> (\<open>contextHandle\<close> is set only when
  the manager had one) and its result; \<open>outBuffer\<close> is \<open>SecBufferDesc.buffers[0]\<close>.\<close>

record AcceptSecurityContextInput =
  in_credential :: handle
  in_buffer :: bytes
  in_contextHandle :: "handle option"

record ServerSecurityContext =
  contextHandle :: handle
  SECURITY_STATUS :: string
  outBuffer :: bytes

text \<open>An awaited promise is fulfilled, is rejected, or stays pending.\<close>

datatype awaited = Fulfilled | Rejected exn | Pending

text \<open>Modelled from the spec: the class SSO is not under src/. The session assembled by
  \<open>new SSO(sch, method)\<close>, \<open>setOptions(opts)\<close> and \<open>load()\<close> is determined by the handle,
  the mechanism label and the options it was given (and by lookups outside this model),
  so the model keeps those three.\<close>

datatype sso = SSO "handle option" string Opts

datatype event =
    AcquireCredentialsHandle string
  | FreeCredentialsHandle handle
  | AcceptSecurityContext AcceptSecurityContextInput
  | DeleteSecurityContext "handle option"
  | SetCookieMode
  | WaitForReleased key
  | GetServerContextHandle key
  | SchSet key handle
  | SchRelease key
  | SsoNew "handle option" string
  | SsoSetOptions Opts
  | SsoLoad
  | SetStatusCode nat
  | SetHeader string string
  | ResEnd "string option"
  | Debug string
  | ConsoleError exn
  | Next "http_error option"

subsection \<open>Construction: \<open>auth(options)\<close>\<close>

definition conflict_message :: string where
  "conflict_message = ''Sorry. Limitation... Cannot have both useActiveDirectory=true and useCookies=true... because it will crash when calling ActiveDirectory.''"

text \<open>What \<open>auth\<close> leaves in the closure of the middleware it returns: the merged
  options, the credential and its expiry (the manager it creates starts empty).\<close>

record closure =
  cl_opts :: Opts
  cl_credential :: handle
  cl_tsExpiry :: int

text \<open>
  \<open>auth\<close> returns the thrown error or the closure, and the provider calls it made.
  \<open>acq\<close> is the answer of \<open>sspi.AcquireCredentialsHandle({packageName: 'Negotiate'})\<close>.
\<close>

definition auth :: "AuthOptions \<Rightarrow> (exn + handle \<times> int) \<Rightarrow> (exn + closure) \<times> event list" where
  "auth options acq =
     (let opts = object_assign default_opts options in
      if truthy (optActiveDirectory opts) \<and> truthy (optCookies opts)
      then (Inl (Error conflict_message), [])
      else (case acq of
              Inl e \<Rightarrow> (Inl e, [AcquireCredentialsHandle ''Negotiate''])
            | Inr (c, t) \<Rightarrow>
                (Inr \<lparr>cl_opts = opts, cl_credential = c, cl_tsExpiry = t\<rparr>,
                 [AcquireCredentialsHandle ''Negotiate''])))"


subsection \<open>The state the middleware works on\<close>

text \<open>
  The closure variables \<open>credential\<close> and \<open>tsExpiry\<close>, the table of the manager
  (correlation key to pending context handle), the response object and \<open>req.sso\<close> of the
  request being served, and the trace of calls made so far.
\<close>

record state =
  credential :: handle
  tsExpiry :: int
  table :: "key \<rightharpoonup> handle"
  statusCode :: nat
  headers :: "string \<rightharpoonup> string"
  ended :: bool
  reqSso :: "sso option"
  trace :: "event list"

text \<open>A request: \<open>req.headers.authorization\<close>, and the correlation key under which the
  manager files the request (its connection or, in cookie mode, its cookie).\<close>

record request =
  authorization :: "string option"
  corrKey :: key

text \<open>
  What the collaborators answer during one request: \<open>new Date()\<close>, the provider calls
  (\<open>None\<close> or \<open>Inr\<close> when the call returns, the thrown error otherwise), the two
  awaited promises (\<open>schManager.waitForReleased()\<close>, the spec's \<open>awaitFree\<close>, and
  \<open>sso.load()\<close>), the constructor of SSO, and the base64 codec.
\<close>

record env =
  now :: int
  freeCredentialsHandle :: "exn option"
  acquireCredentialsHandle :: "exn + handle \<times> int"
  acceptSecurityContext :: "exn + ServerSecurityContext"
  deleteSecurityContext :: "exn option"
  waitForReleased :: awaited
  ssoNew :: "exn option"
  ssoLoad :: awaited
  decode :: "string \<Rightarrow> bytes"
  encode :: "bytes \<Rightarrow> string"

text \<open>A call appends its event to the trace. The logger, \<open>debug\<close>, the response object
  and \<open>next\<close> belong to the host; they are taken to return normally.\<close>

definition emit :: "event \<Rightarrow> state \<Rightarrow> state" where
  "emit e s = s\<lparr>trace := trace s @ [e]\<rparr>"

definition debug :: "string \<Rightarrow> state \<Rightarrow> state" where
  "debug m s = emit (Debug m) s"

definition console_error :: "exn \<Rightarrow> state \<Rightarrow> state" where
  "console_error e s = emit (ConsoleError e) s"

definition next_call :: "http_error option \<Rightarrow> state \<Rightarrow> state" where
  "next_call a s = emit (Next a) s"

definition setStatusCode :: "nat \<Rightarrow> state \<Rightarrow> state" where
  "setStatusCode n s = emit (SetStatusCode n) (s\<lparr>statusCode := n\<rparr>)"

definition setHeader :: "string \<Rightarrow> string \<Rightarrow> state \<Rightarrow> state" where
  "setHeader name v s = emit (SetHeader name v) (s\<lparr>headers := (headers s)(name \<mapsto> v)\<rparr>)"

definition resEnd :: "state \<Rightarrow> state" where
  "resEnd s = emit (ResEnd None) (s\<lparr>ended := True\<rparr>)"

text \<open>Modelled from the spec: \<open>ServerContextHandleManager.getServerContextHandle\<close> is not
  under src/. It is the spec's \<open>acquire(key)\<close>: the pending handle of the key, or none.\<close>

definition getServerContextHandle :: "key \<Rightarrow> state \<Rightarrow> handle option \<times> state" where
  "getServerContextHandle k s = (table s k, emit (GetServerContextHandle k) s)"

text \<open>Modelled from the spec: \<open>ServerContextHandleManager.set\<close> is not under src/. It is
  the spec's \<open>store(key, handle)\<close>: the handle is recorded as pending under the key.\<close>

definition schSet :: "key \<Rightarrow> handle \<Rightarrow> state \<Rightarrow> state" where
  "schSet k h s = emit (SchSet k h) (s\<lparr>table := (table s)(k \<mapsto> h)\<rparr>)"

text \<open>Modelled from the spec: \<open>ServerContextHandleManager.release\<close> is not under src/. It
  frees the slot of the key: the key has no entry in the table afterwards. (The provider's
  handle is deleted by the middleware itself, through \<open>sspi.DeleteSecurityContext\<close>.)\<close>

definition schRelease :: "key \<Rightarrow> state \<Rightarrow> state" where
  "schRelease k s = emit (SchRelease k) (s\<lparr>table := (table s)(k := None)\<rparr>)"

subsection \<open>Strings\<close>

definition startsWith :: "string \<Rightarrow> string \<Rightarrow> bool" where
  "startsWith s p = (take (length p) s = p)"

definition substring :: "string \<Rightarrow> nat \<Rightarrow> string" where
  "substring s n = drop n s"

subsection \<open>\<open>checkCredentials\<close>\<close>

text \<open>Returns the thrown error, if any, and the state.\<close>

definition checkCredentials :: "env \<Rightarrow> state \<Rightarrow> exn option \<times> state" where
  "checkCredentials ev s =
     (if tsExpiry s < now ev then
        (let s1 = emit (FreeCredentialsHandle (credential s)) s in
         case freeCredentialsHandle ev of
           Some e \<Rightarrow> (Some e, s1)
         | None \<Rightarrow>
             (let s2 = emit (AcquireCredentialsHandle ''Negotiate'') s1 in
              case acquireCredentialsHandle ev of
                Inl e \<Rightarrow> (Some e, s2)
              | Inr (c, t) \<Rightarrow> (None, s2\<lparr>credential := c, tsExpiry := t\<rparr>)))
      else (None, s))"

subsection \<open>The middleware\<close>

text \<open>
  How the \<open>try\<close> block ends: it runs to its end, it returns early, it throws, or it
  stops at an \<open>await\<close> whose promise stays pending.
\<close>

datatype ctl = Fallthrough | Returned | Thrown exn | Suspended

text \<open>Lines 65 to 70: the request carries no authorization.\<close>

definition no_authorization :: "env \<Rightarrow> request \<Rightarrow> state \<Rightarrow> ctl \<times> state" where
  "no_authorization ev req s =
     (let s1 = debug ''no authorization'' s;
          s2 = emit (WaitForReleased (corrKey req)) s1 in
      case waitForReleased ev of
        Pending \<Rightarrow> (Suspended, s2)
      | Rejected e \<Rightarrow> (Thrown e, s2)
      | Fulfilled \<Rightarrow>
          (let s3 = debug ''schManager released'' s2;
               s4 = setStatusCode 401 s3;
               s5 = setHeader ''WWW-Authenticate'' ''Negotiate'' s4 in
           (Returned, resEnd s5)))"

text \<open>Lines 115 to 125: the provider answered \<open>SEC_E_OK\<close>.\<close>

definition sec_e_ok ::
  "Opts \<Rightarrow> env \<Rightarrow> request \<Rightarrow> string \<Rightarrow> ServerSecurityContext \<Rightarrow> state \<Rightarrow> ctl \<times> state" where
  "sec_e_ok opts ev req method ssc s =
     (let s1 = setHeader ''WWW-Authenticate'' (''Negotiate '' @ encode ev (outBuffer ssc)) s;
          (sch, s2) = getServerContextHandle (corrKey req) s1;
          s3 = emit (SsoNew sch method) s2 in
      case ssoNew ev of
        Some e \<Rightarrow> (Thrown e, s3)
      | None \<Rightarrow>
          (let s4 = emit (SsoSetOptions opts) s3;
               s5 = emit SsoLoad s4 in
           case ssoLoad ev of
             Pending \<Rightarrow> (Suspended, s5)
           | Rejected e \<Rightarrow> (Thrown e, s5)
           | Fulfilled \<Rightarrow>
               (let s6 = s5\<lparr>reqSso := Some (SSO sch method opts)\<rparr>;
                    s7 = emit (DeleteSecurityContext sch) s6 in
                case deleteSecurityContext ev of
                  Some e \<Rightarrow> (Thrown e, s7)
                | None \<Rightarrow> (Fallthrough, schRelease (corrKey req) s7))))"

text \<open>Line 79: the token is what follows \<open>Negotiate \<close> in the header.\<close>

definition token_of :: "string \<Rightarrow> string" where
  "token_of a = substring a (length ''Negotiate '')"

text \<open>Line 80: the label of the mechanism, read off the first characters of the token.\<close>

definition method_of :: "string \<Rightarrow> string" where
  "method_of token = (if startsWith token ''YII'' then ''Kerberos'' else ''NTLM'')"

text \<open>Lines 79 to 103: the token is cut out of the header and decoded, the provider is
  called with the credential, the decoded token and the handle the manager holds for the
  key, and the handle it returns is given to the manager. The dumps passed to \<open>debug\<close> are
  recorded by name; their text comes from \<open>hexDump\<close>, which is not under src/.\<close>

definition accept_step ::
  "env \<Rightarrow> request \<Rightarrow> string \<Rightarrow> state \<Rightarrow> (exn + ServerSecurityContext) \<times> state" where
  "accept_step ev req a s =
     (let token = token_of a;
          method = method_of token;
          s1 = debug (''SPNEGO token: '' @ method) s;
          buffer = decode ev token;
          (sch, s2) = getServerContextHandle (corrKey req) s1;
          input = \<lparr>in_credential = credential s, in_buffer = buffer, in_contextHandle = sch\<rparr>;
          s3 = debug ''input'' s2;
          s4 = debug ''hexDump(buffer)'' s3;
          s5 = emit (AcceptSecurityContext input) s4 in
      case acceptSecurityContext ev of
        Inl e \<Rightarrow> (Inl e, s5)
      | Inr ssc \<Rightarrow>
          (let s6 = debug ''serverSecurityContext'' s5;
               s7 = schSet (corrKey req) (contextHandle ssc) s6;
               s8 = debug ''hexDump(buffers[0])'' s7 in
           (Inr ssc, s8)))"

text \<open>Lines 79 to 126: the authorization starts with \<open>Negotiate \<close>.\<close>

definition negotiate :: "Opts \<Rightarrow> env \<Rightarrow> request \<Rightarrow> string \<Rightarrow> state \<Rightarrow> ctl \<times> state" where
  "negotiate opts ev req a s =
     (case accept_step ev req a s of
        (Inl e, s5) \<Rightarrow> (Thrown e, s5)
      | (Inr ssc, s8) \<Rightarrow>
          if SECURITY_STATUS ssc = ''SEC_I_CONTINUE_NEEDED'' then
            (let s9 = setStatusCode 401 s8;
                 s10 = setHeader ''WWW-Authenticate''
                         (''Negotiate '' @ encode ev (outBuffer ssc)) s9 in
             (Returned, resEnd s10))
          else if SECURITY_STATUS ssc = ''SEC_E_OK'' then
            sec_e_ok opts ev req (method_of (token_of a)) ssc s8
          else (Fallthrough, s8))"

text \<open>Lines 59 to 61: in cookie mode the manager is told the request and the response
  (\<open>setCookieMode\<close>; how the cookie becomes the key is outside this model).\<close>

definition cookie_mode :: "Opts \<Rightarrow> state \<Rightarrow> state" where
  "cookie_mode opts s = (if truthy (optCookies opts) then emit SetCookieMode s else s)"

text \<open>Lines 57 to 126, the body of \<open>try\<close>. \<open>!authorization\<close> holds for a missing header
  and for the empty string.\<close>

definition try_block :: "Opts \<Rightarrow> env \<Rightarrow> request \<Rightarrow> state \<Rightarrow> ctl \<times> state" where
  "try_block opts ev req s =
     (case checkCredentials ev s of
        (Some e, s1) \<Rightarrow> (Thrown e, s1)
      | (None, s1) \<Rightarrow>
          (let s2 = cookie_mode opts s1 in
           case authorization req of
             None \<Rightarrow> no_authorization ev req s2
           | Some a \<Rightarrow>
               if a = [] then no_authorization ev req s2
               else if \<not> startsWith a ''Negotiate '' then
                 (Returned,
                  next_call (Some (createError 400 (''Malformed authentication token '' @ a))) s2)
               else negotiate opts ev req a s2))"

definition unexpected_error :: http_error where
  "unexpected_error =
     createError 400
       ''Unexpected error while doing SSO. Please contact your system administrator.''"

text \<open>The middleware: the \<open>try\<close> block, its \<open>catch\<close>, and the \<open>next()\<close> after them. It
  yields how the \<open>try\<close> block ended and the final state.\<close>

definition auth_middleware :: "Opts \<Rightarrow> env \<Rightarrow> request \<Rightarrow> state \<Rightarrow> ctl \<times> state" where
  "auth_middleware opts ev req s =
     (case try_block opts ev req s of
        (Thrown e, s1) \<Rightarrow>
          (Thrown e, next_call None (next_call (Some unexpected_error) (console_error e s1)))
      | (Fallthrough, s1) \<Rightarrow> (Fallthrough, next_call None s1)
      | (Returned, s1) \<Rightarrow> (Returned, s1)
      | (Suspended, s1) \<Rightarrow> (Suspended, s1))"

subsection \<open>Reading a trace\<close>

text \<open>The calls of one kind in a trace, in order, with their arguments.\<close>

fun next_calls :: "event list \<Rightarrow> http_error option list" where
  "next_calls [] = []"
| "next_calls (Next a # es) = a # next_calls es"
| "next_calls (_ # es) = next_calls es"

fun releases :: "event list \<Rightarrow> key list" where
  "releases [] = []"
| "releases (SchRelease k # es) = k # releases es"
| "releases (_ # es) = releases es"

fun deletions :: "event list \<Rightarrow> handle option list" where
  "deletions [] = []"
| "deletions (DeleteSecurityContext h # es) = h # deletions es"
| "deletions (_ # es) = deletions es"

fun logged :: "event list \<Rightarrow> exn list" where
  "logged [] = []"
| "logged (ConsoleError e # es) = e # logged es"
| "logged (_ # es) = logged es"

fun accept_inputs :: "event list \<Rightarrow> AcceptSecurityContextInput list" where
  "accept_inputs [] = []"
| "accept_inputs (AcceptSecurityContext i # es) = i # accept_inputs es"
| "accept_inputs (_ # es) = accept_inputs es"

text \<open>The calls that touch the response or wait for the slot, in order.\<close>

fun response_calls :: "event list \<Rightarrow> event list" where
  "response_calls [] = []"
| "response_calls (WaitForReleased k # es) = WaitForReleased k # response_calls es"
| "response_calls (SetStatusCode n # es) = SetStatusCode n # response_calls es"
| "response_calls (SetHeader n v # es) = SetHeader n v # response_calls es"
| "response_calls (ResEnd d # es) = ResEnd d # response_calls es"
| "response_calls (_ # es) = response_calls es"

text \<open>An event without what was computed from the token: the label and the decoded bytes.\<close>

fun erase_token :: "event \<Rightarrow> event" where
  "erase_token (Debug m) =
     (if startsWith m ''SPNEGO token: '' then Debug ''SPNEGO token: '' else Debug m)"
| "erase_token (SsoNew h m) = SsoNew h []"
| "erase_token (AcceptSecurityContext i) = AcceptSecurityContext (i\<lparr>in_buffer := []\<rparr>)"
| "erase_token e = e"


text \<open>Two states agree on everything the middleware decides and answers: the response,
  the manager, the credential, the calls of \<open>next\<close>, and the sequence of calls once the
  text computed from the token is erased.\<close>

definition same_flow :: "state \<Rightarrow> state \<Rightarrow> bool" where
  "same_flow s t =
     (statusCode s = statusCode t \<and> headers s = headers t \<and> ended s = ended t \<and>
      table s = table t \<and> credential s = credential t \<and> tsExpiry s = tsExpiry t \<and>
      next_calls (trace s) = next_calls (trace t) \<and>
      map erase_token (trace s) = map erase_token (trace t))"

subsection \<open>A concrete codec and concrete requests\<close>

text \<open>
  The middleware takes \<open>encode\<close> and \<open>decode\<close> from the package base64-arraybuffer. The
  theorems below hold for every codec; the concrete runs use base64 as RFC 4648 defines
  it: three bytes become four characters of the alphabet, and a last group of one or two
  bytes is padded with \<open>=\<close>. Decoding follows the package: a text of \<open>n\<close> characters
  gives \<open>n * 3 div 4\<close> bytes less one for each of its last two characters that is \<open>=\<close>;
  four characters fill three bytes, a character outside the alphabet counts as 0, and so
  do the characters missing from a last group of fewer than four.
\<close>

definition b64chars :: string where
  "b64chars = ''ABCDEFGHIJKLMNOPQRSTUVWXYZabcdefghijklmnopqrstuvwxyz0123456789+/''"

definition b64char :: "byte \<Rightarrow> char" where
  "b64char w = b64chars ! unat (w AND 63)"

fun b64encode :: "bytes \<Rightarrow> string" where
  "b64encode [] = []"
| "b64encode [a] =
     [b64char (drop_bit 2 a), b64char (push_bit 4 (a AND 3)), CHR ''='', CHR ''='']"
| "b64encode [a, b] =
     [b64char (drop_bit 2 a), b64char (push_bit 4 (a AND 3) OR drop_bit 4 b),
      b64char (push_bit 2 (b AND 15)), CHR ''='']"
| "b64encode (a # b # c # r) =
     [b64char (drop_bit 2 a), b64char (push_bit 4 (a AND 3) OR drop_bit 4 b),
      b64char (push_bit 2 (b AND 15) OR drop_bit 6 c), b64char (c AND 63)] @ b64encode r"

definition b64value :: "char \<Rightarrow> byte" where
  "b64value c =
     (let i = length (takeWhile (\<lambda>x. x \<noteq> c) b64chars) in if i < 64 then of_nat i else 0)"

definition b64group :: "byte \<Rightarrow> byte \<Rightarrow> byte \<Rightarrow> byte \<Rightarrow> bytes" where
  "b64group e1 e2 e3 e4 =
     [push_bit 2 e1 OR drop_bit 4 e2,
      push_bit 4 (e2 AND 15) OR drop_bit 2 e3,
      push_bit 6 (e3 AND 3) OR (e4 AND 63)]"

fun b64quads :: "string \<Rightarrow> bytes" where
  "b64quads (c1 # c2 # c3 # c4 # r) =
     b64group (b64value c1) (b64value c2) (b64value c3) (b64value c4) @ b64quads r"
| "b64quads [c1, c2, c3] = b64group (b64value c1) (b64value c2) (b64value c3) 0"
| "b64quads [c1, c2] = b64group (b64value c1) (b64value c2) 0 0"
| "b64quads [c1] = b64group (b64value c1) 0 0 0"
| "b64quads [] = []"

definition b64decode :: "string \<Rightarrow> bytes" where
  "b64decode s =
     (let pad = min 2 (length (takeWhile (\<lambda>c. c = CHR ''='') (rev s))) in
      take (length s * 3 div 4 - pad) (b64quads s))"

text \<open>A state before a request: credential 7 valid until time 1000, an empty manager, a
  fresh response. \<open>env0\<close>: the time is 500, every provider call returns, and the provider
  asks for another leg with a three-byte token.\<close>

definition s0 :: state where
  "s0 = \<lparr>credential = 7, tsExpiry = 1000, table = Map.empty, statusCode = 200,
         headers = Map.empty, ended = False, reqSso = None, trace = []\<rparr>"

definition env0 :: env where
  "env0 = \<lparr>now = 500, freeCredentialsHandle = None,
           acquireCredentialsHandle = Inr (8, 2000),
           acceptSecurityContext =
             Inr \<lparr>contextHandle = 5, SECURITY_STATUS = ''SEC_I_CONTINUE_NEEDED'',
                  outBuffer = [77, 97, 110]\<rparr>,
           deleteSecurityContext = None, waitForReleased = Fulfilled,
           ssoNew = None, ssoLoad = Fulfilled,
           decode = b64decode, encode = b64encode\<rparr>"

definition req_none :: request where
  "req_none = \<lparr>authorization = None, corrKey = 1\<rparr>"

definition req_ntlm :: request where
  "req_ntlm = \<lparr>authorization = Some ''Negotiate TlRMTVNTUAAB'', corrKey = 1\<rparr>"

definition req_kerberos :: request where
  "req_kerberos = \<lparr>authorization = Some ''Negotiate YIIabcde'', corrKey = 1\<rparr>"

text \<open>The provider's answers used in the concrete runs.\<close>

definition ssc_ok :: ServerSecurityContext where
  "ssc_ok = \<lparr>contextHandle = 5, SECURITY_STATUS = ''SEC_E_OK'', outBuffer = [77, 97]\<rparr>"

definition ssc_denied :: ServerSecurityContext where
  "ssc_denied = \<lparr>contextHandle = 5, SECURITY_STATUS = ''SEC_E_LOGON_DENIED'', outBuffer = []\<rparr>"

definition ssc_continue_empty :: ServerSecurityContext where
  "ssc_continue_empty =
     \<lparr>contextHandle = 5, SECURITY_STATUS = ''SEC_I_CONTINUE_NEEDED'', outBuffer = []\<rparr>"


section \<open>How each part of the middleware acts on the state\<close>

lemmas call_defs = emit_def debug_def console_error_def next_call_def setStatusCode_def
  setHeader_def resEnd_def getServerContextHandle_def schSet_def schRelease_def

lemma next_calls_append: "next_calls (xs @ ys) = next_calls xs @ next_calls ys"
  by (induction xs rule: next_calls.induct) simp_all

lemma releases_append: "releases (xs @ ys) = releases xs @ releases ys"
  by (induction xs rule: releases.induct) simp_all

lemma deletions_append: "deletions (xs @ ys) = deletions xs @ deletions ys"
  by (induction xs rule: deletions.induct) simp_all

lemma logged_append: "logged (xs @ ys) = logged xs @ logged ys"
  by (induction xs rule: logged.induct) simp_all

lemma accept_inputs_append: "accept_inputs (xs @ ys) = accept_inputs xs @ accept_inputs ys"
  by (induction xs rule: accept_inputs.induct) simp_all

lemma response_calls_append: "response_calls (xs @ ys) = response_calls xs @ response_calls ys"
  by (induction xs rule: response_calls.induct) simp_all

lemmas reads_append = next_calls_append releases_append deletions_append logged_append
  accept_inputs_append response_calls_append

lemma startsWith_nonempty: "startsWith a ''Negotiate '' \<Longrightarrow> a \<noteq> []"
  by (auto simp add: startsWith_def)

lemma startsWith_append: "startsWith (p @ t) p"
  by (simp add: startsWith_def)

lemma b64encode_empty: "(b64encode bs = []) = (bs = [])"
  by (cases bs rule: b64encode.cases) simp_all

subsection \<open>The credential check and cookie mode leave the rest alone\<close>

lemma checkCredentials_frame:
  "table (snd (checkCredentials ev s)) = table s"
  "statusCode (snd (checkCredentials ev s)) = statusCode s"
  "headers (snd (checkCredentials ev s)) = headers s"
  "ended (snd (checkCredentials ev s)) = ended s"
  "reqSso (snd (checkCredentials ev s)) = reqSso s"
  by (simp_all add: checkCredentials_def emit_def Let_def split: option.split sum.split prod.split)

lemma checkCredentials_reads:
  "next_calls (trace (snd (checkCredentials ev s))) = next_calls (trace s)"
  "releases (trace (snd (checkCredentials ev s))) = releases (trace s)"
  "deletions (trace (snd (checkCredentials ev s))) = deletions (trace s)"
  "logged (trace (snd (checkCredentials ev s))) = logged (trace s)"
  "accept_inputs (trace (snd (checkCredentials ev s))) = accept_inputs (trace s)"
  "response_calls (trace (snd (checkCredentials ev s))) = response_calls (trace s)"
  by (simp_all add: checkCredentials_def emit_def Let_def reads_append split: option.split sum.split prod.split)

lemma cookie_mode_frame:
  "table (cookie_mode opts s) = table s"
  "statusCode (cookie_mode opts s) = statusCode s"
  "headers (cookie_mode opts s) = headers s"
  "ended (cookie_mode opts s) = ended s"
  "reqSso (cookie_mode opts s) = reqSso s"
  "credential (cookie_mode opts s) = credential s"
  "tsExpiry (cookie_mode opts s) = tsExpiry s"
  by (simp_all add: cookie_mode_def emit_def)

lemma cookie_mode_reads:
  "next_calls (trace (cookie_mode opts s)) = next_calls (trace s)"
  "releases (trace (cookie_mode opts s)) = releases (trace s)"
  "deletions (trace (cookie_mode opts s)) = deletions (trace s)"
  "logged (trace (cookie_mode opts s)) = logged (trace s)"
  "accept_inputs (trace (cookie_mode opts s)) = accept_inputs (trace s)"
  "response_calls (trace (cookie_mode opts s)) = response_calls (trace s)"
  by (simp_all add: cookie_mode_def emit_def reads_append)

lemmas prelude_frame = cookie_mode_frame checkCredentials_frame
lemmas prelude_reads = cookie_mode_reads checkCredentials_reads

subsection \<open>The branch without authorization\<close>

lemma no_authorization_reads:
  "next_calls (trace (snd (no_authorization ev req s))) = next_calls (trace s)"
  "releases (trace (snd (no_authorization ev req s))) = releases (trace s)"
  "deletions (trace (snd (no_authorization ev req s))) = deletions (trace s)"
  "logged (trace (snd (no_authorization ev req s))) = logged (trace s)"
  "accept_inputs (trace (snd (no_authorization ev req s))) = accept_inputs (trace s)"
  "table (snd (no_authorization ev req s)) = table s"
  by (simp_all add: no_authorization_def call_defs Let_def reads_append split: awaited.split)




subsection \<open>The branch of \<open>SEC_E_OK\<close>\<close>

lemma sec_e_ok_reads:
  "next_calls (trace (snd (sec_e_ok opts ev req m ssc s))) = next_calls (trace s)"
  "logged (trace (snd (sec_e_ok opts ev req m ssc s))) = logged (trace s)"
  "accept_inputs (trace (snd (sec_e_ok opts ev req m ssc s))) = accept_inputs (trace s)"
  by (simp_all add: sec_e_ok_def call_defs Let_def reads_append split: awaited.split option.split)

lemma sec_e_ok_thrown:
  assumes "fst (sec_e_ok opts ev req m ssc s) = Thrown e"
  shows "releases (trace (snd (sec_e_ok opts ev req m ssc s))) = releases (trace s)"
    and "table (snd (sec_e_ok opts ev req m ssc s)) = table s"
  using assms
  by (simp_all add: sec_e_ok_def call_defs Let_def reads_append split: awaited.splits option.splits)

lemma sec_e_ok_completes:
  "ssoNew ev = None \<Longrightarrow> ssoLoad ev = Fulfilled \<Longrightarrow> deleteSecurityContext ev = None \<Longrightarrow>
   sec_e_ok opts ev req m ssc s =
     (Fallthrough,
      s\<lparr>table := (table s)(corrKey req := None),
        headers := (headers s)(''WWW-Authenticate'' \<mapsto> ''Negotiate '' @ encode ev (outBuffer ssc)),
        reqSso := Some (SSO (table s (corrKey req)) m opts),
        trace := trace s @
          [SetHeader ''WWW-Authenticate'' (''Negotiate '' @ encode ev (outBuffer ssc)),
           GetServerContextHandle (corrKey req), SsoNew (table s (corrKey req)) m,
           SsoSetOptions opts, SsoLoad, DeleteSecurityContext (table s (corrKey req)),
           SchRelease (corrKey req)]\<rparr>)"
  by (simp add: sec_e_ok_def call_defs Let_def)

subsection \<open>The call of the provider\<close>

lemma accept_step_throws:
  "acceptSecurityContext ev = Inl e \<Longrightarrow>
   accept_step ev req a s =
     (Inl e,
      s\<lparr>trace := trace s @
          [Debug (''SPNEGO token: '' @ method_of (token_of a)),
           GetServerContextHandle (corrKey req), Debug ''input'', Debug ''hexDump(buffer)'',
           AcceptSecurityContext
             \<lparr>in_credential = credential s,
              in_buffer = decode ev (token_of a),
              in_contextHandle = table s (corrKey req)\<rparr>]\<rparr>)"
  by (simp add: accept_step_def call_defs Let_def)

lemma accept_step_returns:
  "acceptSecurityContext ev = Inr ssc \<Longrightarrow>
   accept_step ev req a s =
     (Inr ssc,
      s\<lparr>table := (table s)(corrKey req \<mapsto> contextHandle ssc),
        trace := trace s @
          [Debug (''SPNEGO token: '' @ method_of (token_of a)),
           GetServerContextHandle (corrKey req), Debug ''input'', Debug ''hexDump(buffer)'',
           AcceptSecurityContext
             \<lparr>in_credential = credential s,
              in_buffer = decode ev (token_of a),
              in_contextHandle = table s (corrKey req)\<rparr>,
           Debug ''serverSecurityContext'', SchSet (corrKey req) (contextHandle ssc),
           Debug ''hexDump(buffers[0])'']\<rparr>)"
  by (simp add: accept_step_def call_defs Let_def)


subsection \<open>The four ways a negotiation step ends\<close>

lemma negotiate_accept_throws:
  "acceptSecurityContext ev = Inl e \<Longrightarrow>
   negotiate opts ev req a s = (Thrown e, snd (accept_step ev req a s))"
  by (simp add: negotiate_def accept_step_throws)

lemma negotiate_continue:
  assumes "acceptSecurityContext ev = Inr ssc"
    and "SECURITY_STATUS ssc = ''SEC_I_CONTINUE_NEEDED''"
  shows "negotiate opts ev req a s =
     (Returned,
      s\<lparr>table := (table s)(corrKey req \<mapsto> contextHandle ssc),
        statusCode := 401,
        headers := (headers s)(''WWW-Authenticate'' \<mapsto> ''Negotiate '' @ encode ev (outBuffer ssc)),
        ended := True,
        trace := trace s @
          [Debug (''SPNEGO token: '' @ method_of (token_of a)),
           GetServerContextHandle (corrKey req), Debug ''input'', Debug ''hexDump(buffer)'',
           AcceptSecurityContext
             \<lparr>in_credential = credential s,
              in_buffer = decode ev (token_of a),
              in_contextHandle = table s (corrKey req)\<rparr>,
           Debug ''serverSecurityContext'', SchSet (corrKey req) (contextHandle ssc),
           Debug ''hexDump(buffers[0])'', SetStatusCode 401,
           SetHeader ''WWW-Authenticate'' (''Negotiate '' @ encode ev (outBuffer ssc)),
           ResEnd None]\<rparr>)"
  using assms(2)
  by (simp add: negotiate_def accept_step_returns [OF assms(1)] call_defs Let_def)

lemma negotiate_other:
  assumes "acceptSecurityContext ev = Inr ssc"
    and "SECURITY_STATUS ssc \<noteq> ''SEC_I_CONTINUE_NEEDED''"
    and "SECURITY_STATUS ssc \<noteq> ''SEC_E_OK''"
  shows "negotiate opts ev req a s =
     (Fallthrough,
      s\<lparr>table := (table s)(corrKey req \<mapsto> contextHandle ssc),
        trace := trace s @
          [Debug (''SPNEGO token: '' @ method_of (token_of a)),
           GetServerContextHandle (corrKey req), Debug ''input'', Debug ''hexDump(buffer)'',
           AcceptSecurityContext
             \<lparr>in_credential = credential s,
              in_buffer = decode ev (token_of a),
              in_contextHandle = table s (corrKey req)\<rparr>,
           Debug ''serverSecurityContext'', SchSet (corrKey req) (contextHandle ssc),
           Debug ''hexDump(buffers[0])'']\<rparr>)"
  using assms(2,3)
  by (simp add: negotiate_def accept_step_returns [OF assms(1)])

lemma negotiate_ok:
  assumes "acceptSecurityContext ev = Inr ssc"
    and "SECURITY_STATUS ssc = ''SEC_E_OK''"
  shows "negotiate opts ev req a s =
     sec_e_ok opts ev req (method_of (token_of a)) ssc
       (snd (accept_step ev req a s))"
  using assms(2)
  by (simp add: negotiate_def accept_step_returns [OF assms(1)])

lemma accept_step_reads:
  "next_calls (trace (snd (accept_step ev req a s))) = next_calls (trace s)"
  "logged (trace (snd (accept_step ev req a s))) = logged (trace s)"
  "releases (trace (snd (accept_step ev req a s))) = releases (trace s)"
  "deletions (trace (snd (accept_step ev req a s))) = deletions (trace s)"
  "accept_inputs (trace (snd (accept_step ev req a s))) =
     accept_inputs (trace s) @
       [\<lparr>in_credential = credential s,
         in_buffer = decode ev (token_of a),
         in_contextHandle = table s (corrKey req)\<rparr>]"
  by (cases "acceptSecurityContext ev";
      simp add: accept_step_throws accept_step_returns reads_append)+

lemma accept_step_table:
  "table (snd (accept_step ev req a s)) =
     (case acceptSecurityContext ev of
        Inl e \<Rightarrow> table s
      | Inr ssc \<Rightarrow> (table s)(corrKey req \<mapsto> contextHandle ssc))"
  by (cases "acceptSecurityContext ev")
     (simp_all add: accept_step_throws accept_step_returns)

lemma negotiate_cases:
  obtains (throws) e where "acceptSecurityContext ev = Inl e"
  | (continue) ssc where "acceptSecurityContext ev = Inr ssc"
      "SECURITY_STATUS ssc = ''SEC_I_CONTINUE_NEEDED''"
  | (ok) ssc where "acceptSecurityContext ev = Inr ssc" "SECURITY_STATUS ssc = ''SEC_E_OK''"
  | (other) ssc where "acceptSecurityContext ev = Inr ssc"
      "SECURITY_STATUS ssc \<noteq> ''SEC_I_CONTINUE_NEEDED''" "SECURITY_STATUS ssc \<noteq> ''SEC_E_OK''"
  by (cases "acceptSecurityContext ev") blast+

lemma negotiate_reads:
  "next_calls (trace (snd (negotiate opts ev req a s))) = next_calls (trace s)"
  "logged (trace (snd (negotiate opts ev req a s))) = logged (trace s)"
  "accept_inputs (trace (snd (negotiate opts ev req a s))) =
     accept_inputs (trace s) @
       [\<lparr>in_credential = credential s,
         in_buffer = decode ev (token_of a),
         in_contextHandle = table s (corrKey req)\<rparr>]"
  by (cases rule: negotiate_cases [where ev = ev];
      simp add: negotiate_accept_throws negotiate_continue negotiate_other negotiate_ok
        sec_e_ok_reads accept_step_reads reads_append)+

lemma negotiate_thrown:
  assumes "fst (negotiate opts ev req a s) = Thrown e"
  shows "releases (trace (snd (negotiate opts ev req a s))) = releases (trace s)
       \<and> (table (snd (negotiate opts ev req a s)) = table s
          \<or> (\<exists>ssc. acceptSecurityContext ev = Inr ssc
               \<and> table (snd (negotiate opts ev req a s)) =
                   (table s)(corrKey req \<mapsto> contextHandle ssc)))"
proof (cases rule: negotiate_cases [where ev = ev])
  case (throws e')
  then show ?thesis
    by (simp add: negotiate_accept_throws accept_step_reads accept_step_table)
next
  case (continue ssc)
  with assms show ?thesis by (simp add: negotiate_continue)
next
  case (ok ssc)
  let ?m = "method_of (token_of a)"
  let ?s8 = "snd (accept_step ev req a s)"
  have eq: "negotiate opts ev req a s = sec_e_ok opts ev req ?m ssc ?s8"
    using ok by (rule negotiate_ok)
  with assms have thr: "fst (sec_e_ok opts ev req ?m ssc ?s8) = Thrown e" by simp
  show ?thesis
    using ok(1)
    by (simp add: eq sec_e_ok_thrown [OF thr] accept_step_reads accept_step_table)
next
  case (other ssc)
  with assms show ?thesis by (simp add: negotiate_other)
qed

subsection \<open>The four ways through the \<open>try\<close> block\<close>

lemma try_block_check_throws:
  "fst (checkCredentials ev s) = Some e \<Longrightarrow>
   try_block opts ev req s = (Thrown e, snd (checkCredentials ev s))"
  by (cases "checkCredentials ev s") (simp add: try_block_def)

lemma try_block_no_authorization:
  "fst (checkCredentials ev s) = None \<Longrightarrow>
   authorization req = None \<or> authorization req = Some [] \<Longrightarrow>
   try_block opts ev req s =
     no_authorization ev req (cookie_mode opts (snd (checkCredentials ev s)))"
  by (cases "checkCredentials ev s") (auto simp add: try_block_def)

lemma try_block_malformed:
  "fst (checkCredentials ev s) = None \<Longrightarrow> authorization req = Some a \<Longrightarrow> a \<noteq> [] \<Longrightarrow>
   \<not> startsWith a ''Negotiate '' \<Longrightarrow>
   try_block opts ev req s =
     (Returned,
      next_call (Some (createError 400 (''Malformed authentication token '' @ a)))
        (cookie_mode opts (snd (checkCredentials ev s))))"
  by (cases "checkCredentials ev s") (simp add: try_block_def)

lemma try_block_negotiate:
  "fst (checkCredentials ev s) = None \<Longrightarrow> authorization req = Some a \<Longrightarrow>
   startsWith a ''Negotiate '' \<Longrightarrow>
   try_block opts ev req s =
     negotiate opts ev req a (cookie_mode opts (snd (checkCredentials ev s)))"
  by (cases "checkCredentials ev s") (simp add: try_block_def startsWith_nonempty)

lemma try_block_cases:
  obtains (check) e where "fst (checkCredentials ev s) = Some e"
  | (absent) "fst (checkCredentials ev s) = None"
      "authorization req = None \<or> authorization req = Some []"
  | (malformed) a where "fst (checkCredentials ev s) = None" "authorization req = Some a"
      "a \<noteq> []" "\<not> startsWith a ''Negotiate ''"
  | (wellformed) a where "fst (checkCredentials ev s) = None" "authorization req = Some a"
      "startsWith a ''Negotiate ''"
  by (cases "fst (checkCredentials ev s)"; cases "authorization req"; force)


lemma try_block_thrown:
  assumes "fst (try_block opts ev req s) = Thrown e"
  shows "next_calls (trace (snd (try_block opts ev req s))) = next_calls (trace s)
       \<and> releases (trace (snd (try_block opts ev req s))) = releases (trace s)
       \<and> (table (snd (try_block opts ev req s)) = table s
          \<or> (\<exists>ssc. acceptSecurityContext ev = Inr ssc
               \<and> table (snd (try_block opts ev req s)) =
                   (table s)(corrKey req \<mapsto> contextHandle ssc)))"
proof (cases rule: try_block_cases [where ev = ev and s = s and req = req])
  case (check e')
  then show ?thesis
    by (simp add: try_block_check_throws prelude_reads prelude_frame)
next
  case absent
  then show ?thesis
    by (simp add: try_block_no_authorization no_authorization_reads prelude_reads prelude_frame)
next
  case (malformed a)
  with assms show ?thesis by (simp add: try_block_malformed)
next
  case (wellformed a)
  let ?s2 = "cookie_mode opts (snd (checkCredentials ev s))"
  have eq: "try_block opts ev req s = negotiate opts ev req a ?s2"
    using wellformed by (rule try_block_negotiate)
  with assms have thr: "fst (negotiate opts ev req a ?s2) = Thrown e" by simp
  show ?thesis
    using negotiate_thrown [OF thr]
    by (simp add: eq negotiate_reads prelude_reads prelude_frame)
qed

subsection \<open>The \<open>catch\<close> block and the trailing \<open>next()\<close>\<close>


lemma auth_middleware_accept_inputs:
  "accept_inputs (trace (snd (auth_middleware opts ev req s))) =
     accept_inputs (trace (snd (try_block opts ev req s)))"
proof (cases "try_block opts ev req s")
  case (Pair c s1)
  then show ?thesis
    by (cases c) (simp_all add: auth_middleware_def call_defs reads_append)
qed

lemma wellformed_accept_inputs:
  assumes "authorization req = Some a" and "startsWith a ''Negotiate ''"
    and "fst (checkCredentials ev s) = None"
  shows "accept_inputs (trace (snd (auth_middleware opts ev req s))) =
     accept_inputs (trace s) @
       [\<lparr>in_credential = credential (snd (checkCredentials ev s)),
         in_buffer = decode ev (token_of a),
         in_contextHandle = table s (corrKey req)\<rparr>]"
  by (simp add: auth_middleware_accept_inputs try_block_negotiate [OF assms(3,1,2)]
        negotiate_reads prelude_reads prelude_frame)

lemma continue_step:
  assumes "authorization req = Some a" and "startsWith a ''Negotiate ''"
    and "fst (checkCredentials ev s) = None"
    and "acceptSecurityContext ev = Inr ssc"
    and "SECURITY_STATUS ssc = ''SEC_I_CONTINUE_NEEDED''"
  shows "auth_middleware opts ev req s =
     negotiate opts ev req a (cookie_mode opts (snd (checkCredentials ev s)))"
    and "fst (auth_middleware opts ev req s) = Returned"
proof -
  let ?s2 = "cookie_mode opts (snd (checkCredentials ev s))"
  have tb: "try_block opts ev req s = negotiate opts ev req a ?s2"
    using assms(3,1,2) by (rule try_block_negotiate)
  show "auth_middleware opts ev req s = negotiate opts ev req a ?s2"
    by (simp add: auth_middleware_def tb negotiate_continue [OF assms(4,5)])
  then show "fst (auth_middleware opts ev req s) = Returned"
    by (simp add: negotiate_continue [OF assms(4,5)])
qed

subsection \<open>Two tokens, one flow\<close>

lemma sec_e_ok_same_flow:
  assumes "same_flow s t" and "corrKey r1 = corrKey r2"
  shows "fst (sec_e_ok opts ev r1 m1 ssc s) = fst (sec_e_ok opts ev r2 m2 ssc t)
       \<and> same_flow (snd (sec_e_ok opts ev r1 m1 ssc s)) (snd (sec_e_ok opts ev r2 m2 ssc t))"
  using assms
  by (simp add: sec_e_ok_def same_flow_def call_defs Let_def reads_append
        split: option.split awaited.split)

lemma accept_step_same_flow:
  assumes "corrKey r1 = corrKey r2"
  shows "fst (accept_step ev r1 a1 s) = fst (accept_step ev r2 a2 s)
       \<and> same_flow (snd (accept_step ev r1 a1 s)) (snd (accept_step ev r2 a2 s))"
  using assms
  by (cases "acceptSecurityContext ev")
     (simp_all add: accept_step_throws accept_step_returns same_flow_def startsWith_def
        reads_append)

lemma negotiate_same_flow:
  assumes "corrKey r1 = corrKey r2"
  shows "fst (negotiate opts ev r1 a1 s) = fst (negotiate opts ev r2 a2 s)
       \<and> same_flow (snd (negotiate opts ev r1 a1 s)) (snd (negotiate opts ev r2 a2 s))"
proof (cases rule: negotiate_cases [where ev = ev])
  case (throws e)
  then show ?thesis
    using accept_step_same_flow [OF assms, of ev a1 s a2]
    by (simp add: negotiate_accept_throws)
next
  case (continue ssc)
  then show ?thesis
    using assms by (simp add: negotiate_continue same_flow_def startsWith_def reads_append)
next
  case (ok ssc)
  then show ?thesis
    using accept_step_same_flow [OF assms, of ev a1 s a2] assms
    by (simp add: negotiate_ok sec_e_ok_same_flow)
next
  case (other ssc)
  then show ?thesis
    using assms by (simp add: negotiate_other same_flow_def startsWith_def reads_append)
qed

lemma auth_middleware_same_flow:
  assumes "fst (try_block opts ev r1 s) = fst (try_block opts ev r2 s)"
    and "same_flow (snd (try_block opts ev r1 s)) (snd (try_block opts ev r2 s))"
  shows "fst (auth_middleware opts ev r1 s) = fst (auth_middleware opts ev r2 s)
       \<and> same_flow (snd (auth_middleware opts ev r1 s)) (snd (auth_middleware opts ev r2 s))"
proof (cases "try_block opts ev r1 s")
  case p1: (Pair c1 u1)
  show ?thesis
  proof (cases "try_block opts ev r2 s")
    case p2: (Pair c2 u2)
    from assms p1 p2 have "c2 = c1" and "same_flow u1 u2" by simp_all
    then show ?thesis
      by (cases c1)
         (simp_all add: auth_middleware_def p1 p2 same_flow_def call_defs reads_append startsWith_def)
  qed
qed

section \<open>Construction\<close>

lemmas run_defs = auth_middleware_def try_block_def negotiate_def accept_step_def sec_e_ok_def
  no_authorization_def checkCredentials_def cookie_mode_def call_defs Let_def
  startsWith_def substring_def token_of_def method_of_def
  s0_def env0_def req_none_def req_ntlm_def req_kerberos_def default_opts_def
  ssc_ok_def ssc_denied_def ssc_continue_empty_def createError_def unexpected_error_def
  b64char_def b64chars_def b64group_def b64value_def b64decode_def

text \<open>
  Claim C7. When a caller enables both directory enrichment and cookie mode, \<open>auth\<close> throws
  the limitation error, whatever the provider would have answered, and it throws before
  its first provider call: no credential is acquired and no middleware is returned.
\<close>

theorem auth_conflict_throws:
  "useActiveDirectory options = Value True \<Longrightarrow> useCookies options = Value True \<Longrightarrow>
   auth options acq = (Inl (Error conflict_message), [])"
  by (simp add: auth_def object_assign_def)

theorem auth_conflict_throws_witness:
  "useActiveDirectory (no_options\<lparr>useActiveDirectory := Value True, useCookies := Value True\<rparr>)
     = Value True
   \<and> useCookies (no_options\<lparr>useActiveDirectory := Value True, useCookies := Value True\<rparr>)
     = Value True
   \<and> auth (no_options\<lparr>useActiveDirectory := Value True, useCookies := Value True\<rparr>)
       (Inr (8, 2000)) = (Inl (Error conflict_message), [])"
  using auth_conflict_throws
    [of "no_options\<lparr>useActiveDirectory := Value True, useCookies := Value True\<rparr>" "Inr (8, 2000)"]
  by (simp add: no_options_def)

text \<open>
  Claim C9, as stated, fails: a caller who passes \<open>useCookies: true\<close> and
  \<open>useActiveDirectory: undefined\<close> has not set the directory mode to false, yet
  \<open>Object.assign\<close> copies the \<open>undefined\<close> over the default, the test finds a falsy value,
  and \<open>auth\<close> goes on to acquire the credential.
\<close>

theorem auth_cookies_with_undefined_directory_returns:
  "auth \<lparr>useGroups = Absent, useActiveDirectory = Undefined, useOwner = Absent,
          useCookies = Value True\<rparr> (Inr (8, 2000))
   = (Inr \<lparr>cl_opts = \<lparr>optActiveDirectory = None, optGroups = Some True,
                       optOwner = Some False, optCookies = Some True\<rparr>,
           cl_credential = 8, cl_tsExpiry = 2000\<rparr>,
      [AcquireCredentialsHandle ''Negotiate''])"
  by (simp add: auth_def object_assign_def default_opts_def)

text \<open>
  Claim C9, amended. With no options the merged options are the defaults (directory and
  groups on, owner and cookies off). Hence a call with \<open>useCookies: true\<close> whose
  \<open>useActiveDirectory\<close> is absent or true throws the limitation error before any provider
  call; in particular \<open>auth({useCookies: true})\<close> throws.
\<close>

theorem auth_cookies_with_default_directory_throws:
  assumes "useCookies options = Value True"
    and "useActiveDirectory options = Absent \<or> useActiveDirectory options = Value True"
  shows "object_assign default_opts no_options =
           \<lparr>optActiveDirectory = Some True, optGroups = Some True,
            optOwner = Some False, optCookies = Some False\<rparr>
       \<and> auth options acq = (Inl (Error conflict_message), [])
       \<and> auth (no_options\<lparr>useCookies := Value True\<rparr>) acq = (Inl (Error conflict_message), [])"
  using assms
  by (auto simp add: auth_def object_assign_def default_opts_def no_options_def)

theorem auth_cookies_with_default_directory_throws_witness:
  "useCookies (no_options\<lparr>useCookies := Value True\<rparr>) = Value True
   \<and> useActiveDirectory (no_options\<lparr>useCookies := Value True\<rparr>) = Absent
   \<and> auth (no_options\<lparr>useCookies := Value True\<rparr>) (Inr (8, 2000))
       = (Inl (Error conflict_message), [])"
  using auth_cookies_with_default_directory_throws
    [of "no_options\<lparr>useCookies := Value True\<rparr>" "Inr (8, 2000)"]
  by (simp add: no_options_def)

section \<open>Renewal of the credential\<close>

text \<open>
  Claim C5, as stated, fails: with the expiry (1000) before the time of the request
  (5000), the first provider call of the renewal frees the old handle 7, and the new
  credential is acquired only afterwards.
\<close>

theorem checkCredentials_frees_before_it_acquires:
  "tsExpiry s0 < now (env0\<lparr>now := 5000\<rparr>)
   \<and> trace (snd (checkCredentials (env0\<lparr>now := 5000\<rparr>) s0))
       = [FreeCredentialsHandle 7, AcquireCredentialsHandle ''Negotiate'']"
  by (simp add: checkCredentials_def emit_def s0_def env0_def)

text \<open>
  Claim C5, amended. Whenever the expiry has passed at the start of a request and both
  provider calls return, the renewal frees the old handle, then acquires a credential for
  \<open>Negotiate\<close>, then assigns the new handle and the new expiry; nothing else changes. The
  function is synchronous: no other request runs between these steps.
\<close>

theorem checkCredentials_renewal_order:
  "tsExpiry s < now ev \<Longrightarrow> freeCredentialsHandle ev = None \<Longrightarrow>
   acquireCredentialsHandle ev = Inr (c, t) \<Longrightarrow>
   checkCredentials ev s =
     (None,
      s\<lparr>credential := c, tsExpiry := t,
        trace := trace s @
          [FreeCredentialsHandle (credential s), AcquireCredentialsHandle ''Negotiate'']\<rparr>)"
  by (simp add: checkCredentials_def emit_def)

theorem checkCredentials_renewal_order_witness:
  "tsExpiry s0 < now (env0\<lparr>now := 5000\<rparr>)
   \<and> freeCredentialsHandle (env0\<lparr>now := 5000\<rparr>) = None
   \<and> acquireCredentialsHandle (env0\<lparr>now := 5000\<rparr>) = Inr (8, 2000)
   \<and> checkCredentials (env0\<lparr>now := 5000\<rparr>) s0 =
       (None,
        s0\<lparr>credential := 8, tsExpiry := 2000,
           trace := trace s0 @
             [FreeCredentialsHandle (credential s0), AcquireCredentialsHandle ''Negotiate'']\<rparr>)"
  using checkCredentials_renewal_order [of s0 "env0\<lparr>now := 5000\<rparr>" 8 2000]
  by (simp add: s0_def env0_def)

section \<open>Errors thrown inside the \<open>try\<close> block\<close>




text \<open>
  Claim C10. Whenever the \<open>try\<close> block throws, the middleware calls \<open>next\<close> exactly twice
  in that request: first with the error of status 400 made in the \<open>catch\<close> block, then
  with no argument, by the \<open>next()\<close> that follows the \<open>try\<close> statement.
\<close>

theorem thrown_error_calls_next_twice:
  "fst (try_block opts ev req s) = Thrown e \<Longrightarrow>
   fst (auth_middleware opts ev req s) = Thrown e
   \<and> next_calls (trace (snd (auth_middleware opts ev req s))) =
       next_calls (trace s) @
         [Some \<lparr>err_status = 400,
                err_message =
                  ''Unexpected error while doing SSO. Please contact your system administrator.''\<rparr>,
          None]"
  using try_block_thrown [of opts ev req s e]
  by (cases "try_block opts ev req s")
     (simp add: auth_middleware_def call_defs reads_append unexpected_error_def createError_def)

theorem thrown_error_calls_next_twice_witness:
  "fst (try_block default_opts (env0\<lparr>acceptSecurityContext := Inl (Error ''boom'')\<rparr>)
          req_ntlm s0) = Thrown (Error ''boom'')
   \<and> next_calls (trace (snd (auth_middleware default_opts
          (env0\<lparr>acceptSecurityContext := Inl (Error ''boom'')\<rparr>) req_ntlm s0)))
       = [Some \<lparr>err_status = 400,
                err_message =
                  ''Unexpected error while doing SSO. Please contact your system administrator.''\<rparr>,
          None]"
proof -
  have h: "fst (try_block default_opts (env0\<lparr>acceptSecurityContext := Inl (Error ''boom'')\<rparr>)
          req_ntlm s0) = Thrown (Error ''boom'')"
    by (simp add: run_defs)
  have "trace s0 = []" by (simp add: s0_def)
  with thrown_error_calls_next_twice [OF h] h show ?thesis by simp
qed

section \<open>What the middleware does with the provider's status\<close>

text \<open>
  Claim C4, as stated, fails: nothing in the middleware looks at the length of the
  provider's token. When the provider answers \<open>SEC_I_CONTINUE_NEEDED\<close> with an empty
  output buffer, the response is 401 and its challenge header is \<open>Negotiate \<close> followed
  by an empty continuation token.
\<close>

theorem continue_step_with_empty_token:
  "SECURITY_STATUS ssc_continue_empty = ''SEC_I_CONTINUE_NEEDED''
   \<and> statusCode (snd (auth_middleware default_opts
         (env0\<lparr>acceptSecurityContext := Inr ssc_continue_empty\<rparr>) req_ntlm s0)) = 401
   \<and> headers (snd (auth_middleware default_opts
         (env0\<lparr>acceptSecurityContext := Inr ssc_continue_empty\<rparr>) req_ntlm s0))
       ''WWW-Authenticate'' = Some ''Negotiate ''
   \<and> map_option token_of (headers (snd (auth_middleware default_opts
         (env0\<lparr>acceptSecurityContext := Inr ssc_continue_empty\<rparr>) req_ntlm s0))
       ''WWW-Authenticate'') = Some []"
  by (simp add: run_defs)

text \<open>
  Claim C4, amended. For every well-formed request whose provider step returns
  \<open>SEC_I_CONTINUE_NEEDED\<close>, the returned context handle is stored under the correlation
  key, and the response is ended with status 401 and the challenge header \<open>Negotiate \<close>
  followed by the encoding of the provider's output token; \<open>next\<close> is not called and
  nothing is released. The continuation token is that encoding, whatever its length: with
  base64 it is empty exactly when the provider's token is. The key is preserved for the
  next round trip: the next well-formed request with the same key hands the stored handle
  to the provider.
\<close>

theorem continue_step_stores_handle_and_challenges:
  assumes "authorization req = Some a" and "startsWith a ''Negotiate ''"
    and "fst (checkCredentials ev s) = None"
    and "acceptSecurityContext ev = Inr ssc"
    and "SECURITY_STATUS ssc = ''SEC_I_CONTINUE_NEEDED''"
  shows "fst (auth_middleware opts ev req s) = Returned
       \<and> table (snd (auth_middleware opts ev req s)) = (table s)(corrKey req \<mapsto> contextHandle ssc)
       \<and> statusCode (snd (auth_middleware opts ev req s)) = 401
       \<and> headers (snd (auth_middleware opts ev req s)) ''WWW-Authenticate'' =
           Some (''Negotiate '' @ encode ev (outBuffer ssc))
       \<and> map_option token_of (headers (snd (auth_middleware opts ev req s)) ''WWW-Authenticate'') =
           Some (encode ev (outBuffer ssc))
       \<and> (encode ev = b64encode \<longrightarrow>
            (map_option token_of (headers (snd (auth_middleware opts ev req s))
               ''WWW-Authenticate'') = Some []) = (outBuffer ssc = []))
       \<and> ended (snd (auth_middleware opts ev req s))
       \<and> next_calls (trace (snd (auth_middleware opts ev req s))) = next_calls (trace s)
       \<and> releases (trace (snd (auth_middleware opts ev req s))) = releases (trace s)
       \<and> (\<forall>opts' ev' req' a'.
            corrKey req' = corrKey req \<longrightarrow> authorization req' = Some a' \<longrightarrow>
            startsWith a' ''Negotiate '' \<longrightarrow>
            fst (checkCredentials ev' (snd (auth_middleware opts ev req s))) = None \<longrightarrow>
            accept_inputs (trace (snd (auth_middleware opts' ev' req'
                (snd (auth_middleware opts ev req s))))) =
              accept_inputs (trace (snd (auth_middleware opts ev req s))) @
                [\<lparr>in_credential =
                    credential (snd (checkCredentials ev' (snd (auth_middleware opts ev req s)))),
                  in_buffer = decode ev' (token_of a'),
                  in_contextHandle = Some (contextHandle ssc)\<rparr>])"
proof -
  let ?s' = "snd (auth_middleware opts ev req s)"
  note eq = continue_step(1) [OF assms, of opts]
  have tab: "table ?s' = (table s)(corrKey req \<mapsto> contextHandle ssc)"
    by (simp add: eq negotiate_continue [OF assms(4,5)] prelude_frame)
  have rest: "fst (auth_middleware opts ev req s) = Returned
       \<and> statusCode ?s' = 401
       \<and> headers ?s' ''WWW-Authenticate'' = Some (''Negotiate '' @ encode ev (outBuffer ssc))
       \<and> map_option token_of (headers ?s' ''WWW-Authenticate'') = Some (encode ev (outBuffer ssc))
       \<and> (encode ev = b64encode \<longrightarrow>
            (map_option token_of (headers ?s' ''WWW-Authenticate'') = Some []) =
              (outBuffer ssc = []))
       \<and> ended ?s'
       \<and> next_calls (trace ?s') = next_calls (trace s)
       \<and> releases (trace ?s') = releases (trace s)"
    by (simp add: eq negotiate_continue [OF assms(4,5)] reads_append prelude_reads prelude_frame
          token_of_def substring_def b64encode_empty)
  have nxt: "accept_inputs (trace (snd (auth_middleware opts' ev' req' ?s'))) =
              accept_inputs (trace ?s') @
                [\<lparr>in_credential = credential (snd (checkCredentials ev' ?s')),
                  in_buffer = decode ev' (token_of a'),
                  in_contextHandle = Some (contextHandle ssc)\<rparr>]"
    if "corrKey req' = corrKey req" "authorization req' = Some a'"
      "startsWith a' ''Negotiate ''" "fst (checkCredentials ev' ?s') = None"
    for opts' ev' req' a'
    using wellformed_accept_inputs [OF that(2,3,4), of opts'] that(1) by (simp add: tab)
  from tab rest nxt show ?thesis by blast
qed

theorem continue_step_stores_handle_and_challenges_witness:
  "authorization req_ntlm = Some ''Negotiate TlRMTVNTUAAB''
   \<and> startsWith ''Negotiate TlRMTVNTUAAB'' ''Negotiate ''
   \<and> fst (checkCredentials env0 s0) = None
   \<and> SECURITY_STATUS \<lparr>contextHandle = 5, SECURITY_STATUS = ''SEC_I_CONTINUE_NEEDED'',
                        outBuffer = [77, 97, 110]\<rparr> = ''SEC_I_CONTINUE_NEEDED''
   \<and> fst (auth_middleware default_opts env0 req_ntlm s0) = Returned
   \<and> table (snd (auth_middleware default_opts env0 req_ntlm s0)) 1 = Some 5
   \<and> statusCode (snd (auth_middleware default_opts env0 req_ntlm s0)) = 401
   \<and> headers (snd (auth_middleware default_opts env0 req_ntlm s0)) ''WWW-Authenticate'' =
       Some ''Negotiate TWFu''
   \<and> encode env0 = b64encode
   \<and> map_option token_of
         (headers (snd (auth_middleware default_opts env0 req_ntlm s0)) ''WWW-Authenticate'')
       \<noteq> Some []
   \<and> map in_contextHandle (accept_inputs (trace (snd (auth_middleware default_opts
         (env0\<lparr>acceptSecurityContext := Inr ssc_ok\<rparr>) req_kerberos
         (snd (auth_middleware default_opts env0 req_ntlm s0)))))) = [None, Some 5]"
proof -
  let ?ssc = "\<lparr>contextHandle = 5, SECURITY_STATUS = ''SEC_I_CONTINUE_NEEDED'',
               outBuffer = [77, 97, 110]\<rparr>"
  let ?s' = "snd (auth_middleware default_opts env0 req_ntlm s0)"
  let ?ev' = "env0\<lparr>acceptSecurityContext := Inr ssc_ok\<rparr>"
  have h1: "authorization req_ntlm = Some ''Negotiate TlRMTVNTUAAB''"
    by (simp add: req_ntlm_def)
  have h2: "startsWith ''Negotiate TlRMTVNTUAAB'' ''Negotiate ''"
    by (simp add: startsWith_def)
  have h3: "fst (checkCredentials env0 s0) = None"
    by (simp add: checkCredentials_def env0_def s0_def)
  have h4: "acceptSecurityContext env0 = Inr ?ssc" by (simp add: env0_def)
  have h5: "SECURITY_STATUS ?ssc = ''SEC_I_CONTINUE_NEEDED''" by simp
  note t = continue_step_stores_handle_and_challenges [OF h1 h2 h3 h4 h5, of default_opts]
  have g1: "corrKey req_kerberos = corrKey req_ntlm"
    by (simp add: req_kerberos_def req_ntlm_def)
  have g2: "authorization req_kerberos = Some ''Negotiate YIIabcde''"
    by (simp add: req_kerberos_def)
  have g3: "startsWith ''Negotiate YIIabcde'' ''Negotiate ''"
    by (simp add: startsWith_def)
  have g4: "fst (checkCredentials ?ev' ?s') = None"
    by (simp add: run_defs)
  have first: "accept_inputs (trace ?s') =
      [\<lparr>in_credential = 7, in_buffer = b64decode (token_of ''Negotiate TlRMTVNTUAAB''),
        in_contextHandle = None\<rparr>]"
    using wellformed_accept_inputs [OF h1 h2 h3, of default_opts]
    by (simp add: s0_def env0_def req_ntlm_def checkCredentials_def)
  from t have "accept_inputs (trace (snd (auth_middleware default_opts ?ev' req_kerberos ?s'))) =
      accept_inputs (trace ?s') @
        [\<lparr>in_credential = credential (snd (checkCredentials ?ev' ?s')),
          in_buffer = decode ?ev' (token_of ''Negotiate YIIabcde''),
          in_contextHandle = Some (contextHandle ?ssc)\<rparr>]"
    using g1 g2 g3 g4 by blast
  then have second: "map in_contextHandle (accept_inputs (trace (snd (auth_middleware
      default_opts ?ev' req_kerberos ?s')))) = [None, Some 5]"
    by (simp add: first)
  from t have "fst (auth_middleware default_opts env0 req_ntlm s0) = Returned"
    and "table ?s' = (table s0)(corrKey req_ntlm \<mapsto> contextHandle ?ssc)"
    and "statusCode ?s' = 401"
    and "headers ?s' ''WWW-Authenticate'' = Some (''Negotiate '' @ encode env0 (outBuffer ?ssc))"
    and "encode env0 = b64encode \<longrightarrow>
      (map_option token_of (headers ?s' ''WWW-Authenticate'') = Some []) = (outBuffer ?ssc = [])"
    by simp_all
  moreover have "encode env0 = b64encode" by (simp add: env0_def)
  ultimately show ?thesis
    using h1 h2 h3 h5 second
    by (simp add: req_ntlm_def b64char_def b64chars_def)
qed

text \<open>
  Claim C3, as stated, fails. The provider answers \<open>SEC_E_OK\<close>, the handle 5 is stored,
  and then the constructor of SSO throws: the middleware never calls
  \<open>DeleteSecurityContext\<close>, and the manager keeps handle 5 under key 1.
\<close>

theorem ok_step_with_failing_sso_keeps_handle:
  "SECURITY_STATUS ssc_ok = ''SEC_E_OK''
   \<and> deletions (trace (snd (auth_middleware default_opts
         (env0\<lparr>acceptSecurityContext := Inr ssc_ok, ssoNew := Some (Error ''sso'')\<rparr>)
         req_kerberos s0))) = []
   \<and> table (snd (auth_middleware default_opts
         (env0\<lparr>acceptSecurityContext := Inr ssc_ok, ssoNew := Some (Error ''sso'')\<rparr>)
         req_kerberos s0)) (corrKey req_kerberos) = Some 5"
  by (simp add: run_defs)

text \<open>
  Claim C3, amended. For every negotiation that reaches \<open>SEC_E_OK\<close> and whose session is
  assembled and whose handle is deleted without an error being thrown, the provider is
  asked exactly once to delete the context handle, the slot is released once, the
  context-handle table has no entry for the correlation key afterwards, the session is
  attached to the request, and \<open>next\<close> is called once, with no argument.
\<close>

theorem ok_step_deletes_handle_once:
  assumes "authorization req = Some a" and "startsWith a ''Negotiate ''"
    and "fst (checkCredentials ev s) = None"
    and "acceptSecurityContext ev = Inr ssc"
    and "SECURITY_STATUS ssc = ''SEC_E_OK''"
    and "ssoNew ev = None" and "ssoLoad ev = Fulfilled" and "deleteSecurityContext ev = None"
  shows "fst (auth_middleware opts ev req s) = Fallthrough
       \<and> deletions (trace (snd (auth_middleware opts ev req s))) =
           deletions (trace s) @ [Some (contextHandle ssc)]
       \<and> releases (trace (snd (auth_middleware opts ev req s))) = releases (trace s) @ [corrKey req]
       \<and> table (snd (auth_middleware opts ev req s)) = (table s)(corrKey req := None)
       \<and> table (snd (auth_middleware opts ev req s)) (corrKey req) = None
       \<and> reqSso (snd (auth_middleware opts ev req s)) =
           Some (SSO (Some (contextHandle ssc)) (method_of (token_of a)) opts)
       \<and> next_calls (trace (snd (auth_middleware opts ev req s))) = next_calls (trace s) @ [None]"
proof -
  let ?s2 = "cookie_mode opts (snd (checkCredentials ev s))"
  let ?r = "sec_e_ok opts ev req (method_of (token_of a)) ssc (snd (accept_step ev req a ?s2))"
  have "try_block opts ev req s = negotiate opts ev req a ?s2"
    using assms(3,1,2) by (rule try_block_negotiate)
  then have tb: "try_block opts ev req s = ?r"
    by (simp add: negotiate_ok [OF assms(4,5)])
  have r: "fst ?r = Fallthrough" by (simp add: sec_e_ok_completes [OF assms(6,7,8)])
  have "auth_middleware opts ev req s = (Fallthrough, next_call None (snd ?r))"
    using r by (cases ?r) (simp add: auth_middleware_def tb)
  then show ?thesis
    by (simp add: sec_e_ok_completes [OF assms(6,7,8)] accept_step_returns [OF assms(4)]
          call_defs reads_append prelude_reads prelude_frame)
qed

theorem ok_step_deletes_handle_once_witness:
  "authorization req_kerberos = Some ''Negotiate YIIabcde''
   \<and> startsWith ''Negotiate YIIabcde'' ''Negotiate ''
   \<and> fst (checkCredentials (env0\<lparr>acceptSecurityContext := Inr ssc_ok\<rparr>) s0) = None
   \<and> SECURITY_STATUS ssc_ok = ''SEC_E_OK''
   \<and> deletions (trace (snd (auth_middleware default_opts
         (env0\<lparr>acceptSecurityContext := Inr ssc_ok\<rparr>) req_kerberos s0))) = [Some 5]
   \<and> table (snd (auth_middleware default_opts
         (env0\<lparr>acceptSecurityContext := Inr ssc_ok\<rparr>) req_kerberos s0)) (corrKey req_kerberos)
       = None"
proof -
  let ?ev = "env0\<lparr>acceptSecurityContext := Inr ssc_ok\<rparr>"
  have h1: "authorization req_kerberos = Some ''Negotiate YIIabcde''"
    by (simp add: req_kerberos_def)
  have h2: "startsWith ''Negotiate YIIabcde'' ''Negotiate ''"
    by (simp add: startsWith_def)
  have h3: "fst (checkCredentials ?ev s0) = None"
    by (simp add: checkCredentials_def env0_def s0_def)
  have h4: "acceptSecurityContext ?ev = Inr ssc_ok" by simp
  have h5: "SECURITY_STATUS ssc_ok = ''SEC_E_OK''" by (simp add: ssc_ok_def)
  have h6: "ssoNew ?ev = None" and h7: "ssoLoad ?ev = Fulfilled"
    and h8: "deleteSecurityContext ?ev = None"
    by (simp_all add: env0_def)
  have "trace s0 = []" and "contextHandle ssc_ok = 5"
    by (simp_all add: s0_def ssc_ok_def)
  with ok_step_deletes_handle_once [OF h1 h2 h3 h4 h5 h6 h7 h8, of default_opts] h1 h2 h3 h5
  show ?thesis by simp
qed




section \<open>Requests without authorization\<close>




section \<open>The mechanism label\<close>

text \<open>
  Claim C8. Take two requests that differ only in the token after \<open>Negotiate \<close>, hence
  possibly in the label read off its first characters, and let the collaborators answer
  alike. The \<open>try\<close> block ends the same way for both, and the two final states have the
  same status code, the same headers (\<open>WWW-Authenticate\<close> among them), the same manager
  table and credential, the same calls of \<open>next\<close>, and the same sequence of calls once
  the label and the decoded token are erased from them: the label is passed to \<open>debug\<close>
  and to the constructor of SSO (the session attached to the request records it) and
  decides nothing.
\<close>

theorem label_never_steers:
  "fst (auth_middleware opts ev (req\<lparr>authorization := Some (''Negotiate '' @ t1)\<rparr>) s) =
   fst (auth_middleware opts ev (req\<lparr>authorization := Some (''Negotiate '' @ t2)\<rparr>) s)
   \<and> same_flow
       (snd (auth_middleware opts ev (req\<lparr>authorization := Some (''Negotiate '' @ t1)\<rparr>) s))
       (snd (auth_middleware opts ev (req\<lparr>authorization := Some (''Negotiate '' @ t2)\<rparr>) s))"
proof -
  let ?r1 = "req\<lparr>authorization := Some (''Negotiate '' @ t1)\<rparr>"
  let ?r2 = "req\<lparr>authorization := Some (''Negotiate '' @ t2)\<rparr>"
  let ?s2 = "cookie_mode opts (snd (checkCredentials ev s))"
  have tb: "fst (try_block opts ev ?r1 s) = fst (try_block opts ev ?r2 s)
       \<and> same_flow (snd (try_block opts ev ?r1 s)) (snd (try_block opts ev ?r2 s))"
  proof (cases "fst (checkCredentials ev s)")
    case (Some e)
    then show ?thesis by (simp add: try_block_check_throws same_flow_def)
  next
    case None
    have w: "startsWith (''Negotiate '' @ t) ''Negotiate ''" for t
      by (rule startsWith_append)
    have "try_block opts ev ?r1 s = negotiate opts ev ?r1 (''Negotiate '' @ t1) ?s2"
      by (rule try_block_negotiate [OF None _ w]) simp
    moreover have "try_block opts ev ?r2 s = negotiate opts ev ?r2 (''Negotiate '' @ t2) ?s2"
      by (rule try_block_negotiate [OF None _ w]) simp
    moreover have "corrKey ?r1 = corrKey ?r2" by simp
    ultimately show ?thesis
      using negotiate_same_flow [of ?r1 ?r2 opts ev "''Negotiate '' @ t1" ?s2 "''Negotiate '' @ t2"]
      by simp
  qed
  then show ?thesis by (simp add: auth_middleware_same_flow)
qed

theorem label_never_steers_witness:
  "method_of ''YIIabcde'' = ''Kerberos'' \<and> method_of ''TlRMTVNTUAAB'' = ''NTLM''
   \<and> fst (auth_middleware default_opts (env0\<lparr>acceptSecurityContext := Inr ssc_ok\<rparr>)
        (req_none\<lparr>authorization := Some (''Negotiate '' @ ''YIIabcde'')\<rparr>) s0) =
     fst (auth_middleware default_opts (env0\<lparr>acceptSecurityContext := Inr ssc_ok\<rparr>)
        (req_none\<lparr>authorization := Some (''Negotiate '' @ ''TlRMTVNTUAAB'')\<rparr>) s0)
   \<and> same_flow
       (snd (auth_middleware default_opts (env0\<lparr>acceptSecurityContext := Inr ssc_ok\<rparr>)
          (req_none\<lparr>authorization := Some (''Negotiate '' @ ''YIIabcde'')\<rparr>) s0))
       (snd (auth_middleware default_opts (env0\<lparr>acceptSecurityContext := Inr ssc_ok\<rparr>)
          (req_none\<lparr>authorization := Some (''Negotiate '' @ ''TlRMTVNTUAAB'')\<rparr>) s0))"
proof -
  have "method_of ''YIIabcde'' = ''Kerberos''" and "method_of ''TlRMTVNTUAAB'' = ''NTLM''"
    by (simp_all add: method_of_def startsWith_def)
  with label_never_steers [where opts = default_opts
      and ev = "env0\<lparr>acceptSecurityContext := Inr ssc_ok\<rparr>" and req = req_none
      and ?t1.0 = "''YIIabcde''" and s = s0 and ?t2.0 = "''TlRMTVNTUAAB''"]
  show ?thesis by blast
qed

end
